theory Spec2Isabelle
  imports Main
begin

section \<open>The gitlab_instance_variable resource: data model\<close>

text \<open>
  The resource adapter of \<^verbatim>\<open>internal/provider/resource_gitlab_instance_variable.go\<close>
  has four handlers (Create, Read, Update, Delete) over a \<^verbatim>\<open>*schema.ResourceData\<close>
  and a \<^verbatim>\<open>*gitlab.Client\<close>. The handlers are embedded as state-passing functions:
  the local resource data is a record that is returned updated, and the remote side is
  an explicit state \<open>'s\<close> transformed by the client's calls.
\<close>

subsection \<open>Local state\<close>

text \<open>
  \<^verbatim>\<open>schema.ResourceData\<close>, restricted to what the handlers touch: the identifier slot
  (\<^verbatim>\<open>d.Id()\<close>, \<^verbatim>\<open>d.SetId\<close>) and the five fields of the schema. The schema fixes the
  type of each field (\<^verbatim>\<open>TypeString\<close> or \<^verbatim>\<open>TypeBool\<close>), so the type assertions
  \<^verbatim>\<open>d.Get("key").(string)\<close> and \<^verbatim>\<open>d.Get("protected").(bool)\<close> are field reads.
\<close>

record resource_data =
  d_Id :: string
  d_key :: string
  d_value :: string
  d_variable_type :: string
  d_protected :: bool
  d_masked :: bool

subsection \<open>The remote API as the handlers see it\<close>

text \<open>
  \<^verbatim>\<open>gitlab.InstanceVariable\<close>: the five fields the Read handler copies.
  \<^verbatim>\<open>gitlab.VariableTypeValue\<close> is a string type.
\<close>

record InstanceVariable =
  iv_Key :: string
  iv_Value :: string
  iv_VariableType :: string
  iv_Protected :: bool
  iv_Masked :: bool

text \<open>
  The option structs, with the fields the composite literals of the source set. Every
  field is a pointer in Go; \<open>None\<close> is the nil pointer.
\<close>

record CreateInstanceVariableOptions =
  co_Key :: "string option"
  co_Value :: "string option"
  co_VariableType :: "string option"
  co_Protected :: "bool option"
  co_Masked :: "bool option"

record UpdateInstanceVariableOptions =
  uo_Value :: "string option"
  uo_Protected :: "bool option"
  uo_VariableType :: "string option"
  uo_Masked :: "bool option"

text \<open>\<^verbatim>\<open>gitlab.Response\<close>: only \<^verbatim>\<open>StatusCode\<close> is read.\<close>

record Response =
  StatusCode :: int

definition StatusNotFound :: int where
  "StatusNotFound = 404"

text \<open>
  \<^verbatim>\<open>client.InstanceVariables\<close>. Each call takes the remote state and returns the Go
  result tuple with the new remote state. A Go pointer result is an option (\<open>None\<close> is
  nil), and so is the \<^verbatim>\<open>error\<close> (\<open>None\<close> is \<^verbatim>\<open>err == nil\<close>). The type \<open>'e\<close> of errors
  is left open.
\<close>

record ('s, 'e) InstanceVariablesService =
  CreateVariable :: "CreateInstanceVariableOptions \<Rightarrow> 's \<Rightarrow>
    (InstanceVariable option \<times> Response option \<times> 'e option) \<times> 's"
  GetVariable :: "string \<Rightarrow> 's \<Rightarrow>
    (InstanceVariable option \<times> Response option \<times> 'e option) \<times> 's"
  UpdateVariable :: "string \<Rightarrow> UpdateInstanceVariableOptions \<Rightarrow> 's \<Rightarrow>
    (InstanceVariable option \<times> Response option \<times> 'e option) \<times> 's"
  RemoveVariable :: "string \<Rightarrow> 's \<Rightarrow> (Response option \<times> 'e option) \<times> 's"

subsection \<open>Helpers of the provider package that the file calls\<close>

text \<open>
  \<^verbatim>\<open>augmentVariableClientError\<close> and \<^verbatim>\<open>stringToVariableType\<close> are defined elsewhere
  in the provider package. They are parameters of the handlers: the first maps the
  resource data and an error to \<^verbatim>\<open>diag.Diagnostics\<close> (a slice, here a list, nil being
  \<open>[]\<close>), the second maps the string of the field to a \<^verbatim>\<open>*gitlab.VariableTypeValue\<close>.
\<close>

record ('e, 'dg) helpers =
  augmentVariableClientError :: "resource_data \<Rightarrow> 'e \<Rightarrow> 'dg list"
  stringToVariableType :: "string \<Rightarrow> string option"

subsection \<open>Outcome of a handler\<close>

text \<open>
  A handler returns its diagnostics, with the resource data and the remote state as it
  left them, or it panics on a nil pointer dereference; the remote calls made before
  the panic have happened, so the remote state is kept.
\<close>

datatype ('s, 'dg) outcome =
  Panic 's
| Returned "'dg list" resource_data 's

fun remote_state :: "('s, 'dg) outcome \<Rightarrow> 's" where
  "remote_state (Panic s) = s"
| "remote_state (Returned dg d s) = s"

section \<open>The handlers\<close>

definition resourceGitlabInstanceVariableRead ::
  "('e, 'dg) helpers \<Rightarrow> ('s, 'e) InstanceVariablesService \<Rightarrow> resource_data \<Rightarrow> 's
    \<Rightarrow> ('s, 'dg) outcome" where
  "resourceGitlabInstanceVariableRead h client d s =
     (let key = d_Id d in
      case GetVariable client key s of
        ((v, resp, err), s') \<Rightarrow>
          (case err of
             Some e \<Rightarrow>
               (case resp of
                  None \<Rightarrow> Panic s'
                | Some r \<Rightarrow>
                    if StatusCode r = StatusNotFound
                    then Returned [] (d\<lparr>d_Id := ''''\<rparr>) s'
                    else Returned (augmentVariableClientError h d e) d s')
           | None \<Rightarrow>
               (case v of
                  None \<Rightarrow> Panic s'
                | Some iv \<Rightarrow>
                    Returned []
                      (d\<lparr>d_key := iv_Key iv,
                         d_value := iv_Value iv,
                         d_variable_type := iv_VariableType iv,
                         d_protected := iv_Protected iv,
                         d_masked := iv_Masked iv\<rparr>) s')))"

definition resourceGitlabInstanceVariableCreate ::
  "('e, 'dg) helpers \<Rightarrow> ('s, 'e) InstanceVariablesService \<Rightarrow> resource_data \<Rightarrow> 's
    \<Rightarrow> ('s, 'dg) outcome" where
  "resourceGitlabInstanceVariableCreate h client d s =
     (let key = d_key d;
          val = d_value d;
          variableType = stringToVariableType h (d_variable_type d);
          protected = d_protected d;
          masked = d_masked d;
          options = \<lparr>co_Key = Some key,
                     co_Value = Some val,
                     co_VariableType = variableType,
                     co_Protected = Some protected,
                     co_Masked = Some masked\<rparr>
      in case CreateVariable client options s of
           ((_, _, err), s') \<Rightarrow>
             (case err of
                Some e \<Rightarrow> Returned (augmentVariableClientError h d e) d s'
              | None \<Rightarrow>
                  resourceGitlabInstanceVariableRead h client (d\<lparr>d_Id := key\<rparr>) s'))"

definition resourceGitlabInstanceVariableUpdate ::
  "('e, 'dg) helpers \<Rightarrow> ('s, 'e) InstanceVariablesService \<Rightarrow> resource_data \<Rightarrow> 's
    \<Rightarrow> ('s, 'dg) outcome" where
  "resourceGitlabInstanceVariableUpdate h client d s =
     (let key = d_key d;
          val = d_value d;
          variableType = stringToVariableType h (d_variable_type d);
          protected = d_protected d;
          masked = d_masked d;
          options = \<lparr>uo_Value = Some val,
                     uo_Protected = Some protected,
                     uo_VariableType = variableType,
                     uo_Masked = Some masked\<rparr>
      in case UpdateVariable client key options s of
           ((_, _, err), s') \<Rightarrow>
             (case err of
                Some e \<Rightarrow> Returned (augmentVariableClientError h d e) d s'
              | None \<Rightarrow> resourceGitlabInstanceVariableRead h client d s'))"

definition resourceGitlabInstanceVariableDelete ::
  "('e, 'dg) helpers \<Rightarrow> ('s, 'e) InstanceVariablesService \<Rightarrow> resource_data \<Rightarrow> 's
    \<Rightarrow> ('s, 'dg) outcome" where
  "resourceGitlabInstanceVariableDelete h client d s =
     (let key = d_key d in
      case RemoveVariable client key s of
        ((_, err), s') \<Rightarrow>
          (case err of
             Some e \<Rightarrow> Returned (augmentVariableClientError h d e) d s'
           | None \<Rightarrow> Returned [] d s'))"

section \<open>The schema\<close>

text \<open>
  \<^verbatim>\<open>schema.Schema\<close>, with the attributes the resource sets. An attribute the composite
  literal leaves out has Go's zero value: \<open>False\<close>, or \<open>None\<close> for the untyped
  \<^verbatim>\<open>Default\<close>. The two validators are functions of the provider package defined in
  another file; the schema only names them.
\<close>

datatype ValueType = TypeString | TypeBool

datatype go_value = StringVal string | BoolVal bool

datatype validator = StringIsGitlabVariableName | StringIsGitlabVariableType

record schema =
  Type :: ValueType
  ForceNew :: bool
  Required :: bool
  Optional :: bool
  Sensitive :: bool
  Default :: "go_value option"
  ValidateFunc :: "validator option"

definition Schema :: "string \<rightharpoonup> schema" where
  "Schema =
     [''key'' \<mapsto>
        \<lparr>Type = TypeString, ForceNew = True, Required = True, Optional = False,
         Sensitive = False, Default = None,
         ValidateFunc = Some StringIsGitlabVariableName\<rparr>,
      ''value'' \<mapsto>
        \<lparr>Type = TypeString, ForceNew = False, Required = True, Optional = False,
         Sensitive = True, Default = None, ValidateFunc = None\<rparr>,
      ''variable_type'' \<mapsto>
        \<lparr>Type = TypeString, ForceNew = False, Required = False, Optional = True,
         Sensitive = False, Default = Some (StringVal ''env_var''),
         ValidateFunc = Some StringIsGitlabVariableType\<rparr>,
      ''protected'' \<mapsto>
        \<lparr>Type = TypeBool, ForceNew = False, Required = False, Optional = True,
         Sensitive = False, Default = Some (BoolVal False), ValidateFunc = None\<rparr>,
      ''masked'' \<mapsto>
        \<lparr>Type = TypeBool, ForceNew = False, Required = False, Optional = True,
         Sensitive = False, Default = Some (BoolVal False), ValidateFunc = None\<rparr>]"

section \<open>The plugin SDK around the handlers\<close>

text \<open>
  The Terraform plugin SDK is a dependency, not part of the provider. What it does
  with the schema before it calls a handler is modelled from its contract, as far as
  the schema above relies on it.

  A configuration gives the two \<^verbatim>\<open>Required\<close> fields and may omit each
  \<^verbatim>\<open>Optional\<close> one. For a new resource \<^verbatim>\<open>d.Get\<close> returns the configured value, else
  the schema's \<^verbatim>\<open>Default\<close>, else the zero value of the field's type; the identifier
  is empty until \<^verbatim>\<open>SetId\<close>.
\<close>

record config =
  cfg_key :: string
  cfg_value :: string
  cfg_variable_type :: "string option"
  cfg_protected :: "bool option"
  cfg_masked :: "bool option"

definition schemaDefault :: "string \<Rightarrow> go_value option" where
  "schemaDefault name = (case Schema name of None \<Rightarrow> None | Some sc \<Rightarrow> Default sc)"

fun getString :: "string option \<Rightarrow> go_value option \<Rightarrow> string" where
  "getString (Some x) dflt = x"
| "getString None (Some (StringVal x)) = x"
| "getString None dflt = ''''"

fun getBool :: "bool option \<Rightarrow> go_value option \<Rightarrow> bool" where
  "getBool (Some b) dflt = b"
| "getBool None (Some (BoolVal b)) = b"
| "getBool None dflt = False"

definition newResourceData :: "config \<Rightarrow> resource_data" where
  "newResourceData cfg =
     \<lparr>d_Id = '''',
      d_key = cfg_key cfg,
      d_value = cfg_value cfg,
      d_variable_type = getString (cfg_variable_type cfg) (schemaDefault ''variable_type''),
      d_protected = getBool (cfg_protected cfg) (schemaDefault ''protected''),
      d_masked = getBool (cfg_masked cfg) (schemaDefault ''masked'')\<rparr>"

text \<open>
  Import: the SDK makes a resource data whose only content is the identifier given on
  the command line, and calls the importer's \<^verbatim>\<open>StateContext\<close>, which for this
  resource is \<^verbatim>\<open>schema.ImportStatePassthroughContext\<close>: it returns the resource data
  it was given. The SDK then refreshes each returned resource with Read.
\<close>

definition emptyResourceData :: resource_data where
  "emptyResourceData =
     \<lparr>d_Id = '''', d_key = '''', d_value = '''', d_variable_type = '''',
      d_protected = False, d_masked = False\<rparr>"

definition ImportStatePassthroughContext :: "resource_data \<Rightarrow> resource_data list" where
  "ImportStatePassthroughContext d = [d]"

definition importState :: "string \<Rightarrow> resource_data list" where
  "importState ident = ImportStatePassthroughContext (emptyResourceData\<lparr>d_Id := ident\<rparr>)"

section \<open>Observing the remote calls\<close>

text \<open>
  A recording client wraps any client and appends every call, with its arguments, to
  a log kept beside the remote state. The handlers run unchanged on it.
\<close>

datatype api_call =
  CreateVariableCall CreateInstanceVariableOptions
| GetVariableCall string
| UpdateVariableCall string UpdateInstanceVariableOptions
| RemoveVariableCall string

definition recording ::
  "('s, 'e) InstanceVariablesService \<Rightarrow> ('s \<times> api_call list, 'e) InstanceVariablesService" where
  "recording c =
     \<lparr>CreateVariable = (\<lambda>opts (s, calls).
        case CreateVariable c opts s of
          (r, s') \<Rightarrow> (r, (s', calls @ [CreateVariableCall opts]))),
      GetVariable = (\<lambda>key (s, calls).
        case GetVariable c key s of
          (r, s') \<Rightarrow> (r, (s', calls @ [GetVariableCall key]))),
      UpdateVariable = (\<lambda>key opts (s, calls).
        case UpdateVariable c key opts s of
          (r, s') \<Rightarrow> (r, (s', calls @ [UpdateVariableCall key opts]))),
      RemoveVariable = (\<lambda>key (s, calls).
        case RemoveVariable c key s of
          (r, s') \<Rightarrow> (r, (s', calls @ [RemoveVariableCall key])))\<rparr>"

definition calls_of :: "('s \<times> api_call list, 'dg) outcome \<Rightarrow> api_call list" where
  "calls_of r = snd (remote_state r)"

text \<open>Dropping the log from an outcome gives the outcome on the wrapped client.\<close>

fun forget :: "('s \<times> api_call list, 'dg) outcome \<Rightarrow> ('s, 'dg) outcome" where
  "forget (Panic (s, calls)) = Panic s"
| "forget (Returned dg d (s, calls)) = Returned dg d s"

section \<open>A faithful remote\<close>

text \<open>
  The remote collaborator is the GitLab instance-level CI/CD variable API behind
  go-gitlab; neither is part of the provider. The specification describes it as an API
  with create, get, update and remove operations keyed by variable name, returning
  objects with the fields key, value, variable_type, protected and masked, and
  answering 404 for a name it does not have. That description is modelled here: a store
  from names to the other four attributes. A create without a type, a protection flag
  or a masking flag takes \<open>env_var\<close>, \<open>False\<close> and \<open>False\<close>; an update changes the
  attributes it is given. The errors are made by \<open>mkErr\<close> from the status code.
\<close>

record remote_variable =
  rv_Value :: string
  rv_VariableType :: string
  rv_Protected :: bool
  rv_Masked :: bool

type_synonym remote = "string \<rightharpoonup> remote_variable"

definition toInstanceVariable :: "string \<Rightarrow> remote_variable \<Rightarrow> InstanceVariable" where
  "toInstanceVariable k rv =
     \<lparr>iv_Key = k, iv_Value = rv_Value rv, iv_VariableType = rv_VariableType rv,
      iv_Protected = rv_Protected rv, iv_Masked = rv_Masked rv\<rparr>"

definition orElse :: "'a option \<Rightarrow> 'a \<Rightarrow> 'a" where
  "orElse p dflt = (case p of None \<Rightarrow> dflt | Some x \<Rightarrow> x)"

definition failed ::
  "(int \<Rightarrow> 'e) \<Rightarrow> int \<Rightarrow> InstanceVariable option \<times> Response option \<times> 'e option" where
  "failed mkErr code = (None, Some \<lparr>StatusCode = code\<rparr>, Some (mkErr code))"

definition faithfulRemote :: "(int \<Rightarrow> 'e) \<Rightarrow> (remote, 'e) InstanceVariablesService" where
  "faithfulRemote mkErr =
     \<lparr>CreateVariable = (\<lambda>opts s.
        case co_Key opts of
          None \<Rightarrow> (failed mkErr 400, s)
        | Some k \<Rightarrow>
            (case s k of
               Some rv \<Rightarrow> (failed mkErr 400, s)
             | None \<Rightarrow>
                 (let rv = \<lparr>rv_Value = orElse (co_Value opts) '''',
                            rv_VariableType = orElse (co_VariableType opts) ''env_var'',
                            rv_Protected = orElse (co_Protected opts) False,
                            rv_Masked = orElse (co_Masked opts) False\<rparr>
                  in ((Some (toInstanceVariable k rv), Some \<lparr>StatusCode = 201\<rparr>, None),
                      s(k \<mapsto> rv))))),
      GetVariable = (\<lambda>k s.
        case s k of
          None \<Rightarrow> (failed mkErr 404, s)
        | Some rv \<Rightarrow> ((Some (toInstanceVariable k rv), Some \<lparr>StatusCode = 200\<rparr>, None), s)),
      UpdateVariable = (\<lambda>k opts s.
        case s k of
          None \<Rightarrow> (failed mkErr 404, s)
        | Some rv \<Rightarrow>
            (let rv' = \<lparr>rv_Value = orElse (uo_Value opts) (rv_Value rv),
                        rv_VariableType = orElse (uo_VariableType opts) (rv_VariableType rv),
                        rv_Protected = orElse (uo_Protected opts) (rv_Protected rv),
                        rv_Masked = orElse (uo_Masked opts) (rv_Masked rv)\<rparr>
             in ((Some (toInstanceVariable k rv'), Some \<lparr>StatusCode = 200\<rparr>, None),
                 s(k \<mapsto> rv')))),
      RemoveVariable = (\<lambda>k s.
        case s k of
          None \<Rightarrow> ((Some \<lparr>StatusCode = 404\<rparr>, Some (mkErr 404)), s)
        | Some rv \<Rightarrow> ((Some \<lparr>StatusCode = 204\<rparr>, None), s(k := None)))\<rparr>"

text \<open>
  The one property of a remote that the identity invariant needs: a successful get
  returns an object whose key is the key asked for.
\<close>

definition keyed_by_request :: "('s, 'e) InstanceVariablesService \<Rightarrow> bool" where
  "keyed_by_request c =
     (\<forall>k s v resp s'. GetVariable c k s = ((Some v, resp, None), s') \<longrightarrow> iv_Key v = k)"

section \<open>Concrete inputs\<close>

text \<open>
  Instances for the examples below: errors and diagnostics are strings, the
  diagnostic of an error is the error, and the type conversion knows the two
  variable types. The example client answers every call with a fixed result.
\<close>

definition exampleHelpers :: "(string, string) helpers" where
  "exampleHelpers =
     \<lparr>augmentVariableClientError = (\<lambda>d e. [e]),
      stringToVariableType =
        (\<lambda>t. if t = ''env_var'' \<or> t = ''file'' then Some t else None)\<rparr>"

definition exampleData :: resource_data where
  "exampleData =
     \<lparr>d_Id = ''DB_PASS'', d_key = ''DB_PASS'', d_value = ''secret'',
      d_variable_type = ''env_var'', d_protected = True, d_masked = True\<rparr>"

definition exampleVariable :: InstanceVariable where
  "exampleVariable =
     \<lparr>iv_Key = ''DB_PASS'', iv_Value = ''rotated'', iv_VariableType = ''file'',
      iv_Protected = False, iv_Masked = True\<rparr>"

definition fixedClient ::
  "InstanceVariable option \<times> Response option \<times> string option
    \<Rightarrow> InstanceVariable option \<times> Response option \<times> string option
    \<Rightarrow> (unit, string) InstanceVariablesService" where
  "fixedClient written got =
     \<lparr>CreateVariable = (\<lambda>opts s. (written, s)),
      GetVariable = (\<lambda>k s. (got, s)),
      UpdateVariable = (\<lambda>k opts s. (written, s)),
      RemoveVariable = (\<lambda>k s. (snd written, s))\<rparr>"

definition exampleRemote :: remote where
  "exampleRemote =
     [''DB_PASS'' \<mapsto>
        \<lparr>rv_Value = ''old'', rv_VariableType = ''file'',
         rv_Protected = False, rv_Masked = False\<rparr>]"

definition exampleRemote2 :: remote where
  "exampleRemote2 =
     [''DB_PASS'' \<mapsto>
        \<lparr>rv_Value = ''old'', rv_VariableType = ''file'',
         rv_Protected = False, rv_Masked = False\<rparr>,
      ''OTHER'' \<mapsto>
        \<lparr>rv_Value = ''other value'', rv_VariableType = ''file'',
         rv_Protected = False, rv_Masked = False\<rparr>]"

definition exampleErr :: "int \<Rightarrow> string" where
  "exampleErr code = (if code = 404 then ''404 Not Found'' else ''400 Bad Request'')"

definition exampleConfig :: config where
  "exampleConfig =
     \<lparr>cfg_key = ''DB_PASS'', cfg_value = ''secret'', cfg_variable_type = None,
      cfg_protected = None, cfg_masked = None\<rparr>"

section \<open>General facts about the handlers\<close>

lemmas handler_defs =
  resourceGitlabInstanceVariableRead_def resourceGitlabInstanceVariableCreate_def
  resourceGitlabInstanceVariableUpdate_def resourceGitlabInstanceVariableDelete_def

text \<open>Recording does not change what a handler does.\<close>

lemma recording_read:
  "forget (resourceGitlabInstanceVariableRead h (recording c) d (s, calls))
     = resourceGitlabInstanceVariableRead h c d s"
  by (simp add: resourceGitlabInstanceVariableRead_def recording_def Let_def
           split: prod.splits option.splits)

lemma recording_create:
  "forget (resourceGitlabInstanceVariableCreate h (recording c) d (s, calls))
     = resourceGitlabInstanceVariableCreate h c d s"
  by (simp add: handler_defs recording_def Let_def split: prod.splits option.splits)

lemma recording_update:
  "forget (resourceGitlabInstanceVariableUpdate h (recording c) d (s, calls))
     = resourceGitlabInstanceVariableUpdate h c d s"
  by (simp add: handler_defs recording_def Let_def split: prod.splits option.splits)

lemma recording_delete:
  "forget (resourceGitlabInstanceVariableDelete h (recording c) d (s, calls))
     = resourceGitlabInstanceVariableDelete h c d s"
  by (simp add: handler_defs recording_def Let_def split: prod.splits option.splits)

text \<open>Read makes exactly one remote call, a get keyed by the identifier.\<close>

lemma read_calls:
  "calls_of (resourceGitlabInstanceVariableRead h (recording c) d (s, calls))
     = calls @ [GetVariableCall (d_Id d)]"
  by (simp add: resourceGitlabInstanceVariableRead_def recording_def calls_of_def Let_def
           split: prod.splits option.splits)

text \<open>
  Read panics in exactly two situations: the get reports an error without a response,
  or it reports no error and no object.
\<close>

lemma read_panics_iff:
  assumes "GetVariable client (d_Id d) s = ((v, resp, err), s')"
  shows "(\<exists>t. resourceGitlabInstanceVariableRead h client d s = Panic t)
           \<longleftrightarrow> (err \<noteq> None \<and> resp = None) \<or> (err = None \<and> v = None)"
  using assms
  by (auto simp: resourceGitlabInstanceVariableRead_def split: option.splits)

text \<open>The faithful remote answers a get with the object of the key asked for.\<close>

lemma faithfulRemote_keyed: "keyed_by_request (faithfulRemote mkErr)"
  by (auto simp: keyed_by_request_def faithfulRemote_def failed_def toInstanceVariable_def
           split: option.splits)

text \<open>What a successful Read writes into the key field, on such a remote.\<close>

lemma read_identity:
  assumes "keyed_by_request c"
      and "resourceGitlabInstanceVariableRead h c d s = Returned dg d' s'"
  shows "d' = d\<lparr>d_Id := ''''\<rparr> \<and> dg = []
       \<or> d' = d \<and> (\<exists>e. dg = augmentVariableClientError h d e)
       \<or> d_Id d' = d_Id d \<and> d_key d' = d_Id d \<and> dg = []"
proof -
  obtain v resp err t where g: "GetVariable c (d_Id d) s = ((v, resp, err), t)"
    by (metis prod_cases3 surj_pair)
  show ?thesis
  proof (cases err)
    case (Some e)
    with g assms(2) show ?thesis
      by (auto simp: resourceGitlabInstanceVariableRead_def split: option.splits if_splits)
  next
    case None
    with g assms(2) obtain iv where v: "v = Some iv"
      by (auto simp: resourceGitlabInstanceVariableRead_def split: option.splits)
    from assms(1) g None v have "iv_Key iv = d_Id d"
      unfolding keyed_by_request_def by blast
    with g None v assms(2) show ?thesis
      by (auto simp: resourceGitlabInstanceVariableRead_def)
  qed
qed

lemma update_local_key:
  assumes "keyed_by_request c" and "d_Id d = d_key d"
      and "resourceGitlabInstanceVariableUpdate h c d s = Returned dg d' s'"
  shows "d_key d' = d_key d"
proof -
  let ?opts = "\<lparr>uo_Value = Some (d_value d), uo_Protected = Some (d_protected d),
                uo_VariableType = stringToVariableType h (d_variable_type d),
                uo_Masked = Some (d_masked d)\<rparr>"
  obtain v resp err t where u: "UpdateVariable c (d_key d) ?opts s = ((v, resp, err), t)"
    by (metis prod_cases3 surj_pair)
  show ?thesis
  proof (cases err)
    case (Some e)
    with u assms(3) show ?thesis
      by (simp add: resourceGitlabInstanceVariableUpdate_def)
  next
    case None
    with u assms(3) have "resourceGitlabInstanceVariableRead h c d t = Returned dg d' s'"
      by (simp add: resourceGitlabInstanceVariableUpdate_def)
    from read_identity [OF assms(1) this] assms(2) show ?thesis by auto
  qed
qed

text \<open>The remote calls of Update and of Delete, with their arguments.\<close>

lemma update_calls:
  "calls_of (resourceGitlabInstanceVariableUpdate h (recording c) d (s, []))
     \<in> {[UpdateVariableCall (d_key d)
           \<lparr>uo_Value = Some (d_value d), uo_Protected = Some (d_protected d),
            uo_VariableType = stringToVariableType h (d_variable_type d),
            uo_Masked = Some (d_masked d)\<rparr>],
         [UpdateVariableCall (d_key d)
           \<lparr>uo_Value = Some (d_value d), uo_Protected = Some (d_protected d),
            uo_VariableType = stringToVariableType h (d_variable_type d),
            uo_Masked = Some (d_masked d)\<rparr>,
          GetVariableCall (d_Id d)]}"
  by (auto simp: handler_defs recording_def calls_of_def Let_def
        split: prod.splits option.splits)

lemma create_calls:
  "calls_of (resourceGitlabInstanceVariableCreate h (recording c) d (s, []))
     \<in> {[CreateVariableCall
           \<lparr>co_Key = Some (d_key d), co_Value = Some (d_value d),
            co_VariableType = stringToVariableType h (d_variable_type d),
            co_Protected = Some (d_protected d), co_Masked = Some (d_masked d)\<rparr>],
         [CreateVariableCall
           \<lparr>co_Key = Some (d_key d), co_Value = Some (d_value d),
            co_VariableType = stringToVariableType h (d_variable_type d),
            co_Protected = Some (d_protected d), co_Masked = Some (d_masked d)\<rparr>,
          GetVariableCall (d_key d)]}"
  by (auto simp: handler_defs recording_def calls_of_def Let_def
        split: prod.splits option.splits)

lemma delete_calls:
  "calls_of (resourceGitlabInstanceVariableDelete h (recording c) d (s, []))
     = [RemoveVariableCall (d_key d)]"
  by (auto simp: resourceGitlabInstanceVariableDelete_def recording_def calls_of_def Let_def
        split: prod.splits option.splits)

text \<open>Update in terms of its update call: the handler itself writes no field.\<close>

lemma update_error_or_read:
  assumes "UpdateVariable c (d_key d)
             \<lparr>uo_Value = Some (d_value d), uo_Protected = Some (d_protected d),
              uo_VariableType = stringToVariableType h (d_variable_type d),
              uo_Masked = Some (d_masked d)\<rparr> s
           = ((v, resp, err), t)"
  shows "(\<forall>e. err = Some e \<longrightarrow>
            resourceGitlabInstanceVariableUpdate h c d s
              = Returned (augmentVariableClientError h d e) d t)
       \<and> (err = None \<longrightarrow>
            resourceGitlabInstanceVariableUpdate h c d s
              = resourceGitlabInstanceVariableRead h c d t)"
  using assms by (simp add: resourceGitlabInstanceVariableUpdate_def)

text \<open>
  What Update does to the faithful remote: a variable that exists takes the payload and
  stays under its key; nothing else changes.
\<close>

lemma update_remote_exact:
  "remote_state (resourceGitlabInstanceVariableUpdate h (faithfulRemote mkErr) d st)
     = (case st (d_key d) of
          None \<Rightarrow> st
        | Some rv \<Rightarrow>
            st(d_key d \<mapsto>
              \<lparr>rv_Value = d_value d,
               rv_VariableType =
                 orElse (stringToVariableType h (d_variable_type d)) (rv_VariableType rv),
               rv_Protected = d_protected d,
               rv_Masked = d_masked d\<rparr>))"
  by (auto simp: handler_defs faithfulRemote_def failed_def orElse_def Let_def
        StatusNotFound_def
      split: prod.splits option.splits)

text \<open>
  When Read returns no diagnostic, on a remote that answers a get with the object of
  the key asked for and with errors never augmented to nothing: either the get
  succeeded and the five fields are the fetched ones, the key field being the
  identifier, or the get reported an error with status 404 and only the identifier
  changed, to the empty string.
\<close>

lemma read_no_diag_iff:
  assumes "keyed_by_request c"
      and "\<forall>d e. augmentVariableClientError h d e \<noteq> []"
  shows "resourceGitlabInstanceVariableRead h c d s = Returned [] d' s'
     \<longleftrightarrow>
       (\<exists>iv resp. GetVariable c (d_Id d) s = ((Some iv, resp, None), s')
          \<and> d' = \<lparr>d_Id = d_Id d, d_key = d_Id d, d_value = iv_Value iv,
                   d_variable_type = iv_VariableType iv,
                   d_protected = iv_Protected iv, d_masked = iv_Masked iv\<rparr>)
     \<or> (\<exists>v r e. GetVariable c (d_Id d) s = ((v, Some r, Some e), s')
          \<and> StatusCode r = 404 \<and> d' = d\<lparr>d_Id := ''''\<rparr>)"
proof -
  obtain v resp err t where g: "GetVariable c (d_Id d) s = ((v, resp, err), t)"
    by (metis prod_cases3 surj_pair)
  show ?thesis
  proof (cases err)
    case (Some e)
    show ?thesis
    proof (cases resp)
      case None
      with g Some show ?thesis
        by (simp add: resourceGitlabInstanceVariableRead_def)
    next
      case (Some r)
      with g \<open>err = Some e\<close> assms(2) show ?thesis
        by (auto simp: resourceGitlabInstanceVariableRead_def StatusNotFound_def)
    qed
  next
    case None
    show ?thesis
    proof (cases v)
      case None
      with g \<open>err = None\<close> show ?thesis
        by (simp add: resourceGitlabInstanceVariableRead_def)
    next
      case (Some iv)
      from assms(1) g \<open>err = None\<close> Some have "iv_Key iv = d_Id d"
        unfolding keyed_by_request_def by blast
      with g \<open>err = None\<close> Some show ?thesis
        by (cases d) (auto simp: resourceGitlabInstanceVariableRead_def)
    qed
  qed
qed

section \<open>Read\<close>

text \<open>
  C1. Whenever the remote get call reports an error and the response carries HTTP status
  404, Read sets the identifier to the empty string, leaves the five fields as they
  were, and returns no diagnostic.
\<close>

theorem read_not_found_clears_identity:
  assumes "GetVariable client (d_Id d) s = ((v, Some r, Some e), s')"
      and "StatusCode r = 404"
  shows "resourceGitlabInstanceVariableRead h client d s = Returned [] (d\<lparr>d_Id := ''''\<rparr>) s'
       \<and> d_key (d\<lparr>d_Id := ''''\<rparr>) = d_key d
       \<and> d_value (d\<lparr>d_Id := ''''\<rparr>) = d_value d
       \<and> d_variable_type (d\<lparr>d_Id := ''''\<rparr>) = d_variable_type d
       \<and> d_protected (d\<lparr>d_Id := ''''\<rparr>) = d_protected d
       \<and> d_masked (d\<lparr>d_Id := ''''\<rparr>) = d_masked d"
  using assms by (simp add: resourceGitlabInstanceVariableRead_def StatusNotFound_def)

theorem read_not_found_clears_identity_witness:
  "resourceGitlabInstanceVariableRead exampleHelpers
     (fixedClient (None, None, None)
        (None, Some \<lparr>StatusCode = 404\<rparr>, Some ''404 Not Found''))
     exampleData ()
   = Returned []
       \<lparr>d_Id = '''', d_key = ''DB_PASS'', d_value = ''secret'',
        d_variable_type = ''env_var'', d_protected = True, d_masked = True\<rparr> ()"
proof -
  have g: "GetVariable
             (fixedClient (None, None, None)
                (None, Some \<lparr>StatusCode = 404\<rparr>, Some ''404 Not Found''))
             (d_Id exampleData) ()
           = ((None, Some \<lparr>StatusCode = 404\<rparr>, Some ''404 Not Found''), ())"
    by (simp add: fixedClient_def)
  have c: "StatusCode \<lparr>StatusCode = 404\<rparr> = 404"
    by simp
  from read_not_found_clears_identity [OF g c, of exampleHelpers]
  show ?thesis by (simp add: exampleData_def)
qed

text \<open>
  C6. Whenever the remote get call succeeds, Read overwrites key, value, variable_type,
  protected and masked with the fields of the fetched object and returns no diagnostic.
\<close>

theorem read_success_overwrites_fields:
  assumes "GetVariable client (d_Id d) s = ((Some iv, resp, None), s')"
  shows "resourceGitlabInstanceVariableRead h client d s =
           Returned []
             \<lparr>d_Id = d_Id d, d_key = iv_Key iv, d_value = iv_Value iv,
              d_variable_type = iv_VariableType iv,
              d_protected = iv_Protected iv, d_masked = iv_Masked iv\<rparr> s'"
  using assms by (simp add: resourceGitlabInstanceVariableRead_def)

theorem read_success_overwrites_fields_witness:
  "resourceGitlabInstanceVariableRead exampleHelpers
     (fixedClient (None, None, None)
        (Some exampleVariable, Some \<lparr>StatusCode = 200\<rparr>, None))
     exampleData ()
   = Returned []
       \<lparr>d_Id = ''DB_PASS'', d_key = ''DB_PASS'', d_value = ''rotated'',
        d_variable_type = ''file'', d_protected = False, d_masked = True\<rparr> ()"
proof -
  have g: "GetVariable
             (fixedClient (None, None, None)
                (Some exampleVariable, Some \<lparr>StatusCode = 200\<rparr>, None))
             (d_Id exampleData) ()
           = ((Some exampleVariable, Some \<lparr>StatusCode = 200\<rparr>, None), ())"
    by (simp add: fixedClient_def)
  from read_success_overwrites_fields [OF g, of exampleHelpers]
  show ?thesis by (simp add: exampleData_def exampleVariable_def)
qed

section \<open>Create\<close>

text \<open>
  C2. Create builds the payload from the five fields and calls the remote create. If
  that call reports an error, Create returns the augmented diagnostic of the error and
  leaves the resource data, the identifier included, as it was. If the call succeeds,
  Create sets the identifier to the key field and its result is that of Read on the
  resource data so updated.
\<close>

theorem create_error_or_read:
  assumes "CreateVariable client
             \<lparr>co_Key = Some (d_key d), co_Value = Some (d_value d),
              co_VariableType = stringToVariableType h (d_variable_type d),
              co_Protected = Some (d_protected d), co_Masked = Some (d_masked d)\<rparr> s
           = ((v, resp, err), s')"
  shows "(\<forall>e. err = Some e \<longrightarrow>
            resourceGitlabInstanceVariableCreate h client d s
              = Returned (augmentVariableClientError h d e) d s')
       \<and> (err = None \<longrightarrow>
            resourceGitlabInstanceVariableCreate h client d s
              = resourceGitlabInstanceVariableRead h client (d\<lparr>d_Id := d_key d\<rparr>) s')"
  using assms by (simp add: resourceGitlabInstanceVariableCreate_def)

theorem create_error_or_read_witness:
  "resourceGitlabInstanceVariableCreate exampleHelpers
     (fixedClient (None, Some \<lparr>StatusCode = 400\<rparr>, Some ''400 Bad Request'')
        (None, None, None))
     (exampleData\<lparr>d_Id := ''''\<rparr>) ()
   = Returned [''400 Bad Request'']
       \<lparr>d_Id = '''', d_key = ''DB_PASS'', d_value = ''secret'',
        d_variable_type = ''env_var'', d_protected = True, d_masked = True\<rparr> ()
 \<and> resourceGitlabInstanceVariableCreate exampleHelpers
     (fixedClient (Some exampleVariable, Some \<lparr>StatusCode = 201\<rparr>, None)
        (Some exampleVariable, Some \<lparr>StatusCode = 200\<rparr>, None))
     (exampleData\<lparr>d_Id := ''''\<rparr>) ()
   = Returned []
       \<lparr>d_Id = ''DB_PASS'', d_key = ''DB_PASS'', d_value = ''rotated'',
        d_variable_type = ''file'', d_protected = False, d_masked = True\<rparr> ()"
proof
  let ?d = "exampleData\<lparr>d_Id := ''''\<rparr>"
  let ?bad = "fixedClient (None, Some \<lparr>StatusCode = 400\<rparr>, Some ''400 Bad Request'')
                (None, None, None)"
  let ?good = "fixedClient (Some exampleVariable, Some \<lparr>StatusCode = 201\<rparr>, None)
                 (Some exampleVariable, Some \<lparr>StatusCode = 200\<rparr>, None)"
  let ?opts = "\<lparr>co_Key = Some (d_key ?d), co_Value = Some (d_value ?d),
                co_VariableType = stringToVariableType exampleHelpers (d_variable_type ?d),
                co_Protected = Some (d_protected ?d), co_Masked = Some (d_masked ?d)\<rparr>"
  have b: "CreateVariable ?bad ?opts ()
             = ((None, Some \<lparr>StatusCode = 400\<rparr>, Some ''400 Bad Request''), ())"
    by (simp add: fixedClient_def)
  from create_error_or_read [OF b]
  show "resourceGitlabInstanceVariableCreate exampleHelpers ?bad ?d ()
          = Returned [''400 Bad Request'']
              \<lparr>d_Id = '''', d_key = ''DB_PASS'', d_value = ''secret'',
               d_variable_type = ''env_var'', d_protected = True, d_masked = True\<rparr> ()"
    by (simp add: exampleHelpers_def exampleData_def)
  have g: "CreateVariable ?good ?opts ()
             = ((Some exampleVariable, Some \<lparr>StatusCode = 201\<rparr>, None), ())"
    by (simp add: fixedClient_def)
  from create_error_or_read [OF g]
  show "resourceGitlabInstanceVariableCreate exampleHelpers ?good ?d ()
          = Returned []
              \<lparr>d_Id = ''DB_PASS'', d_key = ''DB_PASS'', d_value = ''rotated'',
               d_variable_type = ''file'', d_protected = False, d_masked = True\<rparr> ()"
    by (simp add: resourceGitlabInstanceVariableRead_def fixedClient_def exampleData_def
          exampleVariable_def)
qed

text \<open>
  C4. On the faithful remote, creating a variable that the remote does not have yet,
  with a variable type that the type conversion passes on as it is, returns no
  diagnostic and leaves the five fields as supplied, with the identifier set to the
  key. Reading it back afterwards, from any resource data with that identifier, yields
  the same five fields.
\<close>

theorem create_then_read_round_trip:
  assumes "s (d_key d) = None"
      and "stringToVariableType h (d_variable_type d) = Some (d_variable_type d)"
      and "d_Id d0 = d_key d"
      and "s1 = s(d_key d \<mapsto>
             \<lparr>rv_Value = d_value d, rv_VariableType = d_variable_type d,
              rv_Protected = d_protected d, rv_Masked = d_masked d\<rparr>)"
  shows "resourceGitlabInstanceVariableCreate h (faithfulRemote mkErr) d s
           = Returned [] (d\<lparr>d_Id := d_key d\<rparr>) s1
       \<and> resourceGitlabInstanceVariableRead h (faithfulRemote mkErr) d0 s1
           = Returned []
               \<lparr>d_Id = d_key d, d_key = d_key d, d_value = d_value d,
                d_variable_type = d_variable_type d,
                d_protected = d_protected d, d_masked = d_masked d\<rparr> s1"
  using assms
  by (simp add: handler_defs faithfulRemote_def orElse_def toInstanceVariable_def Let_def)

theorem create_then_read_round_trip_witness:
  "resourceGitlabInstanceVariableCreate exampleHelpers (faithfulRemote exampleErr)
     (exampleData\<lparr>d_Id := ''''\<rparr>) Map.empty
   = Returned [] exampleData
       [''DB_PASS'' \<mapsto>
          \<lparr>rv_Value = ''secret'', rv_VariableType = ''env_var'',
           rv_Protected = True, rv_Masked = True\<rparr>]
 \<and> resourceGitlabInstanceVariableRead exampleHelpers (faithfulRemote exampleErr)
     (emptyResourceData\<lparr>d_Id := ''DB_PASS''\<rparr>)
     [''DB_PASS'' \<mapsto>
        \<lparr>rv_Value = ''secret'', rv_VariableType = ''env_var'',
         rv_Protected = True, rv_Masked = True\<rparr>]
   = Returned [] exampleData
       [''DB_PASS'' \<mapsto>
          \<lparr>rv_Value = ''secret'', rv_VariableType = ''env_var'',
           rv_Protected = True, rv_Masked = True\<rparr>]"
proof -
  let ?d = "exampleData\<lparr>d_Id := ''''\<rparr>"
  let ?s = "Map.empty :: remote"
  have a: "?s (d_key ?d) = None"
    by (simp add: exampleData_def)
  have b: "stringToVariableType exampleHelpers (d_variable_type ?d) = Some (d_variable_type ?d)"
    by (simp add: exampleHelpers_def exampleData_def)
  have c: "d_Id (emptyResourceData\<lparr>d_Id := ''DB_PASS''\<rparr>) = d_key ?d"
    by (simp add: exampleData_def)
  from create_then_read_round_trip [OF a b c refl, of exampleErr]
  show ?thesis by (simp add: exampleData_def)
qed

text \<open>
  C7. A configuration that omits variable_type, protected or masked gives Create the
  schema default of the omitted field: \<open>env_var\<close>, \<open>False\<close>, \<open>False\<close>. The first
  remote call of Create is the create call, and its payload carries the conversion of
  \<open>env_var\<close>, respectively a pointer to \<open>False\<close>, for the omitted field.
\<close>

theorem create_uses_schema_defaults:
  "\<exists>opts rest.
     calls_of (resourceGitlabInstanceVariableCreate h (recording c) (newResourceData cfg) (s, []))
       = CreateVariableCall opts # rest
   \<and> co_Key opts = Some (cfg_key cfg)
   \<and> co_Value opts = Some (cfg_value cfg)
   \<and> (cfg_variable_type cfg = None \<longrightarrow>
         d_variable_type (newResourceData cfg) = ''env_var''
       \<and> co_VariableType opts = stringToVariableType h ''env_var'')
   \<and> (cfg_protected cfg = None \<longrightarrow>
         d_protected (newResourceData cfg) = False \<and> co_Protected opts = Some False)
   \<and> (cfg_masked cfg = None \<longrightarrow>
         d_masked (newResourceData cfg) = False \<and> co_Masked opts = Some False)"
  by (auto simp: handler_defs recording_def calls_of_def Let_def newResourceData_def
        schemaDefault_def Schema_def
      split: prod.splits option.splits)

theorem create_uses_schema_defaults_witness:
  "take 1 (calls_of (resourceGitlabInstanceVariableCreate exampleHelpers
      (recording (faithfulRemote exampleErr)) (newResourceData exampleConfig) (Map.empty, [])))
   = [CreateVariableCall
        \<lparr>co_Key = Some ''DB_PASS'', co_Value = Some ''secret'',
         co_VariableType = Some ''env_var'', co_Protected = Some False,
         co_Masked = Some False\<rparr>]"
proof -
  from create_uses_schema_defaults
         [of exampleHelpers "faithfulRemote exampleErr" exampleConfig Map.empty]
  obtain opts rest where
    c: "calls_of (resourceGitlabInstanceVariableCreate exampleHelpers
          (recording (faithfulRemote exampleErr)) (newResourceData exampleConfig) (Map.empty, []))
        = CreateVariableCall opts # rest"
    and k: "co_Key opts = Some (cfg_key exampleConfig)"
    and v: "co_Value opts = Some (cfg_value exampleConfig)"
    and t: "cfg_variable_type exampleConfig = None \<longrightarrow>
              co_VariableType opts = stringToVariableType exampleHelpers ''env_var''"
    and p: "cfg_protected exampleConfig = None \<longrightarrow> co_Protected opts = Some False"
    and m: "cfg_masked exampleConfig = None \<longrightarrow> co_Masked opts = Some False"
    by auto
  have "opts = \<lparr>co_Key = Some ''DB_PASS'', co_Value = Some ''secret'',
                 co_VariableType = Some ''env_var'', co_Protected = Some False,
                 co_Masked = Some False\<rparr>"
    using k v t p m by (cases opts) (simp add: exampleConfig_def exampleHelpers_def)
  with c show ?thesis by simp
qed

section \<open>Update\<close>

text \<open>
  C3, as stated, fails in its consequence that Update never alters the key. The update
  call is keyed by the key field, but the Read that follows looks the variable up by
  the identifier and overwrites the key field with the key of what it fetched: with
  identifier \<open>OTHER\<close> and key field \<open>DB_PASS\<close>, a successful Update on the faithful
  remote ends with key field \<open>OTHER\<close>.
\<close>

theorem update_alters_key_counterexample:
  "resourceGitlabInstanceVariableUpdate exampleHelpers (faithfulRemote exampleErr)
     \<lparr>d_Id = ''OTHER'', d_key = ''DB_PASS'', d_value = ''secret'',
      d_variable_type = ''env_var'', d_protected = True, d_masked = True\<rparr>
     exampleRemote2
   = Returned []
       \<lparr>d_Id = ''OTHER'', d_key = ''OTHER'', d_value = ''other value'',
        d_variable_type = ''file'', d_protected = False, d_masked = False\<rparr>
       [''DB_PASS'' \<mapsto>
          \<lparr>rv_Value = ''secret'', rv_VariableType = ''env_var'',
           rv_Protected = True, rv_Masked = True\<rparr>,
        ''OTHER'' \<mapsto>
          \<lparr>rv_Value = ''other value'', rv_VariableType = ''file'',
           rv_Protected = False, rv_Masked = False\<rparr>]
 \<and> d_key \<lparr>d_Id = ''OTHER'', d_key = ''OTHER'', d_value = ''other value'',
           d_variable_type = ''file'', d_protected = False, d_masked = False\<rparr>
    \<noteq> d_key \<lparr>d_Id = ''OTHER'', d_key = ''DB_PASS'', d_value = ''secret'',
           d_variable_type = ''env_var'', d_protected = True, d_masked = True\<rparr>"
  by (simp add: handler_defs faithfulRemote_def orElse_def toInstanceVariable_def
        exampleRemote2_def exampleHelpers_def Let_def)
     (auto simp: fun_eq_iff)

text \<open>
  C3, amended. The first remote call of Update is the update call, keyed by the key
  field, with a payload of exactly value, protected, variable_type and masked, taken
  from the fields; the payload type has no key, and the only other call Update can make
  is the get of the Read that follows, keyed by the identifier. The schema marks key as
  forcing a new resource. Update itself writes no field: when the update call reports
  an error the resource data is returned as it was, and otherwise the result is that of
  Read. On the faithful remote the variable under the key field takes the payload and
  stays under its key, and no other variable changes. On any remote that answers a get
  with the object of the key asked for, an Update of a resource whose identifier is its
  key field leaves the key field as it is, and when both calls succeed the other four
  fields are the fetched ones.
\<close>

theorem update_payload_excludes_key:
  "calls_of (resourceGitlabInstanceVariableUpdate h (recording c) d (s, []))
     \<in> {[UpdateVariableCall (d_key d)
           \<lparr>uo_Value = Some (d_value d), uo_Protected = Some (d_protected d),
            uo_VariableType = stringToVariableType h (d_variable_type d),
            uo_Masked = Some (d_masked d)\<rparr>],
         [UpdateVariableCall (d_key d)
           \<lparr>uo_Value = Some (d_value d), uo_Protected = Some (d_protected d),
            uo_VariableType = stringToVariableType h (d_variable_type d),
            uo_Masked = Some (d_masked d)\<rparr>,
          GetVariableCall (d_Id d)]}
   \<and> map_option ForceNew (Schema ''key'') = Some True
   \<and> (UpdateVariable c (d_key d)
          \<lparr>uo_Value = Some (d_value d), uo_Protected = Some (d_protected d),
           uo_VariableType = stringToVariableType h (d_variable_type d),
           uo_Masked = Some (d_masked d)\<rparr> s
        = ((v, resp, err), t)
       \<longrightarrow> (\<forall>e. err = Some e \<longrightarrow>
               resourceGitlabInstanceVariableUpdate h c d s
                 = Returned (augmentVariableClientError h d e) d t)
         \<and> (err = None \<longrightarrow>
               resourceGitlabInstanceVariableUpdate h c d s
                 = resourceGitlabInstanceVariableRead h c d t)
         \<and> (err = None \<and> keyed_by_request c \<and> d_Id d = d_key d
              \<and> GetVariable c (d_Id d) t = ((Some iv, resp', None), u)
             \<longrightarrow> resourceGitlabInstanceVariableUpdate h c d s
                   = Returned []
                       \<lparr>d_Id = d_Id d, d_key = d_key d, d_value = iv_Value iv,
                        d_variable_type = iv_VariableType iv,
                        d_protected = iv_Protected iv, d_masked = iv_Masked iv\<rparr> u))
   \<and> remote_state (resourceGitlabInstanceVariableUpdate h (faithfulRemote mkErr) d st)
       = (case st (d_key d) of
            None \<Rightarrow> st
          | Some rv \<Rightarrow>
              st(d_key d \<mapsto>
                \<lparr>rv_Value = d_value d,
                 rv_VariableType =
                   orElse (stringToVariableType h (d_variable_type d)) (rv_VariableType rv),
                 rv_Protected = d_protected d,
                 rv_Masked = d_masked d\<rparr>))
   \<and> (keyed_by_request c \<and> d_Id d = d_key d \<and>
        resourceGitlabInstanceVariableUpdate h c d s = Returned dg d' s'
        \<longrightarrow> d_key d' = d_key d)"
proof (intro conjI impI allI)
  let ?opts = "\<lparr>uo_Value = Some (d_value d), uo_Protected = Some (d_protected d),
                uo_VariableType = stringToVariableType h (d_variable_type d),
                uo_Masked = Some (d_masked d)\<rparr>"
  show "calls_of (resourceGitlabInstanceVariableUpdate h (recording c) d (s, []))
     \<in> {[UpdateVariableCall (d_key d) ?opts],
         [UpdateVariableCall (d_key d) ?opts, GetVariableCall (d_Id d)]}"
    by (rule update_calls)
  show "map_option ForceNew (Schema ''key'') = Some True"
    by (simp add: Schema_def)
  show "resourceGitlabInstanceVariableUpdate h c d s
          = Returned (augmentVariableClientError h d e) d t"
    if "UpdateVariable c (d_key d) ?opts s = ((v, resp, err), t)" "err = Some e" for e
    using update_error_or_read [OF that(1)] that(2) by simp
  show "resourceGitlabInstanceVariableUpdate h c d s
          = resourceGitlabInstanceVariableRead h c d t"
    if "UpdateVariable c (d_key d) ?opts s = ((v, resp, err), t)" "err = None"
    using update_error_or_read [OF that(1)] that(2) by simp
  show "resourceGitlabInstanceVariableUpdate h c d s
          = Returned []
              \<lparr>d_Id = d_Id d, d_key = d_key d, d_value = iv_Value iv,
               d_variable_type = iv_VariableType iv,
               d_protected = iv_Protected iv, d_masked = iv_Masked iv\<rparr> u"
    if w: "UpdateVariable c (d_key d) ?opts s = ((v, resp, err), t)"
      and g: "err = None \<and> keyed_by_request c \<and> d_Id d = d_key d
              \<and> GetVariable c (d_Id d) t = ((Some iv, resp', None), u)"
  proof -
    from g have "iv_Key iv = d_Id d"
      unfolding keyed_by_request_def by blast
    with g update_error_or_read [OF w] show ?thesis
      by (cases d) (simp add: resourceGitlabInstanceVariableRead_def)
  qed
  show "remote_state (resourceGitlabInstanceVariableUpdate h (faithfulRemote mkErr) d st)
       = (case st (d_key d) of
            None \<Rightarrow> st
          | Some rv \<Rightarrow>
              st(d_key d \<mapsto>
                \<lparr>rv_Value = d_value d,
                 rv_VariableType =
                   orElse (stringToVariableType h (d_variable_type d)) (rv_VariableType rv),
                 rv_Protected = d_protected d,
                 rv_Masked = d_masked d\<rparr>))"
    by (rule update_remote_exact)
  show "d_key d' = d_key d"
    if "keyed_by_request c \<and> d_Id d = d_key d \<and>
        resourceGitlabInstanceVariableUpdate h c d s = Returned dg d' s'"
    using that update_local_key [of c d h s dg d' s'] by simp
qed

theorem update_payload_excludes_key_witness:
  "d_Id exampleData = d_key exampleData
 \<and> resourceGitlabInstanceVariableUpdate exampleHelpers (faithfulRemote exampleErr)
      exampleData exampleRemote2
    = Returned [] exampleData
        [''DB_PASS'' \<mapsto>
           \<lparr>rv_Value = ''secret'', rv_VariableType = ''env_var'',
            rv_Protected = True, rv_Masked = True\<rparr>,
         ''OTHER'' \<mapsto>
           \<lparr>rv_Value = ''other value'', rv_VariableType = ''file'',
            rv_Protected = False, rv_Masked = False\<rparr>]"
proof -
  let ?rv = "\<lparr>rv_Value = ''secret'', rv_VariableType = ''env_var'',
              rv_Protected = True, rv_Masked = True\<rparr>"
  let ?s' = "[''DB_PASS'' \<mapsto> ?rv,
              ''OTHER'' \<mapsto>
                \<lparr>rv_Value = ''other value'', rv_VariableType = ''file'',
                 rv_Protected = False, rv_Masked = False\<rparr>]"
  let ?iv = "toInstanceVariable ''DB_PASS'' ?rv"
  have k: "keyed_by_request (faithfulRemote exampleErr)"
    by (rule faithfulRemote_keyed)
  have i: "d_Id exampleData = d_key exampleData"
    by (simp add: exampleData_def)
  have w: "UpdateVariable (faithfulRemote exampleErr) (d_key exampleData)
             \<lparr>uo_Value = Some (d_value exampleData),
              uo_Protected = Some (d_protected exampleData),
              uo_VariableType = stringToVariableType exampleHelpers (d_variable_type exampleData),
              uo_Masked = Some (d_masked exampleData)\<rparr> exampleRemote2
           = ((Some ?iv, Some \<lparr>StatusCode = 200\<rparr>, None), ?s')"
    by (auto simp: faithfulRemote_def orElse_def exampleData_def exampleHelpers_def
          exampleRemote2_def Let_def fun_eq_iff)
  have g: "GetVariable (faithfulRemote exampleErr) (d_Id exampleData) ?s'
           = ((Some ?iv, Some \<lparr>StatusCode = 200\<rparr>, None), ?s')"
    by (simp add: faithfulRemote_def exampleData_def)
  from update_payload_excludes_key
         [of exampleHelpers "faithfulRemote exampleErr" exampleData exampleRemote2
             "Some ?iv" "Some \<lparr>StatusCode = 200\<rparr>" None ?s' ?iv
             "Some \<lparr>StatusCode = 200\<rparr>" ?s'] k i w g
  have "resourceGitlabInstanceVariableUpdate exampleHelpers (faithfulRemote exampleErr)
          exampleData exampleRemote2
        = Returned []
            \<lparr>d_Id = d_Id exampleData, d_key = d_key exampleData, d_value = iv_Value ?iv,
             d_variable_type = iv_VariableType ?iv,
             d_protected = iv_Protected ?iv, d_masked = iv_Masked ?iv\<rparr> ?s'"
    by blast
  with i show ?thesis
    by (simp add: exampleData_def toInstanceVariable_def)
qed

section \<open>Delete\<close>

text \<open>
  C5, as stated, fails in what keys the removal: Delete never reads the identifier, it
  keys the removal by the key field. With identifier \<open>OTHER\<close> and key field
  \<open>DB_PASS\<close> the removal call is for \<open>DB_PASS\<close>, and on the faithful remote it is
  \<open>DB_PASS\<close> that is removed while \<open>OTHER\<close> stays.
\<close>

theorem delete_keyed_by_identifier_counterexample:
  "calls_of (resourceGitlabInstanceVariableDelete exampleHelpers
      (recording (faithfulRemote exampleErr))
      \<lparr>d_Id = ''OTHER'', d_key = ''DB_PASS'', d_value = ''secret'',
       d_variable_type = ''env_var'', d_protected = True, d_masked = True\<rparr>
      (exampleRemote2, []))
     = [RemoveVariableCall ''DB_PASS'']
 \<and> RemoveVariableCall ''DB_PASS''
     \<noteq> RemoveVariableCall
         (d_Id \<lparr>d_Id = ''OTHER'', d_key = ''DB_PASS'', d_value = ''secret'',
               d_variable_type = ''env_var'', d_protected = True, d_masked = True\<rparr>)
 \<and> resourceGitlabInstanceVariableDelete exampleHelpers (faithfulRemote exampleErr)
      \<lparr>d_Id = ''OTHER'', d_key = ''DB_PASS'', d_value = ''secret'',
       d_variable_type = ''env_var'', d_protected = True, d_masked = True\<rparr>
      exampleRemote2
     = Returned []
         \<lparr>d_Id = ''OTHER'', d_key = ''DB_PASS'', d_value = ''secret'',
          d_variable_type = ''env_var'', d_protected = True, d_masked = True\<rparr>
         [''OTHER'' \<mapsto>
            \<lparr>rv_Value = ''other value'', rv_VariableType = ''file'',
             rv_Protected = False, rv_Masked = False\<rparr>]"
  by (simp add: resourceGitlabInstanceVariableDelete_def recording_def calls_of_def
        faithfulRemote_def exampleRemote2_def Let_def)

text \<open>
  C5, amended. Delete makes exactly one remote call, the removal keyed by the key
  field. If the removal reports an error, whatever the response (a 404 included),
  Delete returns the augmented diagnostic of the error; if it reports none, Delete
  returns no diagnostic. Either way the resource data is left as it was.
\<close>

theorem delete_keyed_and_reports:
  "calls_of (resourceGitlabInstanceVariableDelete h (recording c) d (s, []))
     = [RemoveVariableCall (d_key d)]
   \<and> (RemoveVariable c (d_key d) s = ((resp, Some e), s') \<longrightarrow>
        resourceGitlabInstanceVariableDelete h c d s
          = Returned (augmentVariableClientError h d e) d s')
   \<and> (RemoveVariable c (d_key d) s = ((resp, None), s') \<longrightarrow>
        resourceGitlabInstanceVariableDelete h c d s = Returned [] d s')"
  by (auto simp: resourceGitlabInstanceVariableDelete_def recording_def calls_of_def Let_def
        split: prod.splits option.splits)

theorem delete_keyed_and_reports_witness:
  "resourceGitlabInstanceVariableDelete exampleHelpers (faithfulRemote exampleErr)
      exampleData exampleRemote
     = Returned [] exampleData Map.empty
 \<and> resourceGitlabInstanceVariableDelete exampleHelpers (faithfulRemote exampleErr)
      exampleData Map.empty
     = Returned [''404 Not Found''] exampleData Map.empty"
proof -
  have ok: "RemoveVariable (faithfulRemote exampleErr) (d_key exampleData) exampleRemote
              = ((Some \<lparr>StatusCode = 204\<rparr>, None), Map.empty)"
    by (simp add: faithfulRemote_def exampleData_def exampleRemote_def)
  have nf: "RemoveVariable (faithfulRemote exampleErr) (d_key exampleData) Map.empty
              = ((Some \<lparr>StatusCode = 404\<rparr>, Some ''404 Not Found''), Map.empty)"
    by (simp add: faithfulRemote_def exampleErr_def)
  from delete_keyed_and_reports
         [of exampleHelpers "faithfulRemote exampleErr" exampleData exampleRemote
             "Some \<lparr>StatusCode = 204\<rparr>" "''''" Map.empty] ok
  have b: "resourceGitlabInstanceVariableDelete exampleHelpers (faithfulRemote exampleErr)
              exampleData exampleRemote = Returned [] exampleData Map.empty"
    by blast
  from delete_keyed_and_reports
         [of exampleHelpers "faithfulRemote exampleErr" exampleData Map.empty
             "Some \<lparr>StatusCode = 404\<rparr>" "''404 Not Found''" Map.empty] nf
  have c: "resourceGitlabInstanceVariableDelete exampleHelpers (faithfulRemote exampleErr)
             exampleData Map.empty
           = Returned (augmentVariableClientError exampleHelpers exampleData ''404 Not Found'')
               exampleData Map.empty"
    by blast
  from b c show ?thesis
    by (simp add: exampleData_def exampleHelpers_def)
qed

section \<open>Import\<close>

text \<open>
  C8. Importing with an identifier yields one resource data whose identifier is that
  string, unchanged, and the Read that refreshes it makes one remote call, the get
  keyed by that string.
\<close>

theorem import_passthrough_identity:
  "map d_Id (importState ident) = [ident]
 \<and> map (\<lambda>d. calls_of (resourceGitlabInstanceVariableRead h (recording c) d (s, [])))
       (importState ident)
     = [[GetVariableCall ident]]"
  by (simp add: importState_def ImportStatePassthroughContext_def read_calls)

section \<open>Read without a response\<close>

text \<open>
  C9. The error branch of Read reads the status code of the response without a nil
  check. When the get reports an error and no response (what go-gitlab returns when
  the request itself fails, for instance a refused connection), Read dereferences nil
  and panics.
\<close>

theorem read_absent_response_panics:
  "resourceGitlabInstanceVariableRead exampleHelpers
     (fixedClient (None, None, None) (None, None, Some ''connection refused''))
     exampleData ()
   = Panic ()"
  by (simp add: resourceGitlabInstanceVariableRead_def fixedClient_def)

section \<open>Identifier and key field\<close>

text \<open>
  C10, as stated, fails on the not-found path of Read: the get is keyed by the
  identifier, the remote answers 404, Read returns no diagnostic, and the identifier is
  now empty while the key field still holds the key.
\<close>

theorem identity_invariant_counterexample:
  "d_Id exampleData = d_key exampleData
 \<and> resourceGitlabInstanceVariableRead exampleHelpers
      (fixedClient (None, None, None)
         (None, Some \<lparr>StatusCode = 404\<rparr>, Some ''404 Not Found''))
      exampleData ()
    = Returned []
        \<lparr>d_Id = '''', d_key = ''DB_PASS'', d_value = ''secret'',
         d_variable_type = ''env_var'', d_protected = True, d_masked = True\<rparr> ()
 \<and> d_Id \<lparr>d_Id = '''', d_key = ''DB_PASS'', d_value = ''secret'',
          d_variable_type = ''env_var'', d_protected = True, d_masked = True\<rparr>
    \<noteq> d_key \<lparr>d_Id = '''', d_key = ''DB_PASS'', d_value = ''secret'',
          d_variable_type = ''env_var'', d_protected = True, d_masked = True\<rparr>"
  by (simp add: resourceGitlabInstanceVariableRead_def fixedClient_def exampleData_def
        StatusNotFound_def)

text \<open>
  C10, amended. Let the remote answer a get with the object of the key asked for, and
  let no error be augmented to an empty diagnostic. Then each handler returns no
  diagnostic in exactly these cases, with exactly this resource data.

  Read: its one call is the get keyed by the identifier. Either the get succeeded, and
  the identifier is kept and equals the key field, the other four fields being the
  fetched ones; or the get reported an error with status 404, and the identifier is
  empty while the five fields, the key field among them, are as before.

  Create: its create call, with the payload of the five fields, succeeded, and the get
  that follows is keyed by the key field. Either that get succeeded, and the identifier
  is the key field Create was given and equals the key field; or it reported 404, and
  the identifier is empty and the fields are as before.

  Update: its update call, keyed by the key field, succeeded, and the get that follows
  is keyed by the identifier. Either that get succeeded, and the identifier is the one
  Update started with and equals the key field; or it reported 404, and the identifier
  is empty and the fields are as before.

  Delete: its one call is the removal keyed by the key field; it succeeded, and the
  resource data is unchanged, so an identifier that was equal to the key field still
  is.
\<close>

theorem identity_invariant_unless_gone:
  assumes "keyed_by_request c"
      and "\<forall>d e. augmentVariableClientError h d e \<noteq> []"
  shows
    "calls_of (resourceGitlabInstanceVariableRead h (recording c) d (s, []))
       = [GetVariableCall (d_Id d)]
   \<and> (resourceGitlabInstanceVariableRead h c d s = Returned [] d' s'
       \<longleftrightarrow>
         (\<exists>iv resp. GetVariable c (d_Id d) s = ((Some iv, resp, None), s')
            \<and> d' = \<lparr>d_Id = d_Id d, d_key = d_Id d, d_value = iv_Value iv,
                     d_variable_type = iv_VariableType iv,
                     d_protected = iv_Protected iv, d_masked = iv_Masked iv\<rparr>
            \<and> d_Id d' = d_key d')
       \<or> (\<exists>v r e. GetVariable c (d_Id d) s = ((v, Some r, Some e), s')
            \<and> StatusCode r = 404 \<and> d' = d\<lparr>d_Id := ''''\<rparr>))
   \<and> calls_of (resourceGitlabInstanceVariableCreate h (recording c) d (s, []))
       \<in> {[CreateVariableCall
             \<lparr>co_Key = Some (d_key d), co_Value = Some (d_value d),
              co_VariableType = stringToVariableType h (d_variable_type d),
              co_Protected = Some (d_protected d), co_Masked = Some (d_masked d)\<rparr>],
           [CreateVariableCall
             \<lparr>co_Key = Some (d_key d), co_Value = Some (d_value d),
              co_VariableType = stringToVariableType h (d_variable_type d),
              co_Protected = Some (d_protected d), co_Masked = Some (d_masked d)\<rparr>,
            GetVariableCall (d_key d)]}
   \<and> (resourceGitlabInstanceVariableCreate h c d s = Returned [] d' s'
       \<longleftrightarrow>
         (\<exists>v0 r0 t.
            CreateVariable c
              \<lparr>co_Key = Some (d_key d), co_Value = Some (d_value d),
               co_VariableType = stringToVariableType h (d_variable_type d),
               co_Protected = Some (d_protected d), co_Masked = Some (d_masked d)\<rparr> s
              = ((v0, r0, None), t)
          \<and> ((\<exists>iv resp. GetVariable c (d_key d) t = ((Some iv, resp, None), s')
                 \<and> d' = \<lparr>d_Id = d_key d, d_key = d_key d, d_value = iv_Value iv,
                          d_variable_type = iv_VariableType iv,
                          d_protected = iv_Protected iv, d_masked = iv_Masked iv\<rparr>
                 \<and> d_Id d' = d_key d')
             \<or> (\<exists>v r e. GetVariable c (d_key d) t = ((v, Some r, Some e), s')
                 \<and> StatusCode r = 404 \<and> d' = d\<lparr>d_Id := ''''\<rparr>))))
   \<and> calls_of (resourceGitlabInstanceVariableUpdate h (recording c) d (s, []))
       \<in> {[UpdateVariableCall (d_key d)
             \<lparr>uo_Value = Some (d_value d), uo_Protected = Some (d_protected d),
              uo_VariableType = stringToVariableType h (d_variable_type d),
              uo_Masked = Some (d_masked d)\<rparr>],
           [UpdateVariableCall (d_key d)
             \<lparr>uo_Value = Some (d_value d), uo_Protected = Some (d_protected d),
              uo_VariableType = stringToVariableType h (d_variable_type d),
              uo_Masked = Some (d_masked d)\<rparr>,
            GetVariableCall (d_Id d)]}
   \<and> (resourceGitlabInstanceVariableUpdate h c d s = Returned [] d' s'
       \<longleftrightarrow>
         (\<exists>v0 r0 t.
            UpdateVariable c (d_key d)
              \<lparr>uo_Value = Some (d_value d), uo_Protected = Some (d_protected d),
               uo_VariableType = stringToVariableType h (d_variable_type d),
               uo_Masked = Some (d_masked d)\<rparr> s
              = ((v0, r0, None), t)
          \<and> ((\<exists>iv resp. GetVariable c (d_Id d) t = ((Some iv, resp, None), s')
                 \<and> d' = \<lparr>d_Id = d_Id d, d_key = d_Id d, d_value = iv_Value iv,
                          d_variable_type = iv_VariableType iv,
                          d_protected = iv_Protected iv, d_masked = iv_Masked iv\<rparr>
                 \<and> d_Id d' = d_key d')
             \<or> (\<exists>v r e. GetVariable c (d_Id d) t = ((v, Some r, Some e), s')
                 \<and> StatusCode r = 404 \<and> d' = d\<lparr>d_Id := ''''\<rparr>))))
   \<and> calls_of (resourceGitlabInstanceVariableDelete h (recording c) d (s, []))
       = [RemoveVariableCall (d_key d)]
   \<and> (resourceGitlabInstanceVariableDelete h c d s = Returned [] d' s'
       \<longleftrightarrow> (\<exists>resp. RemoveVariable c (d_key d) s = ((resp, None), s')) \<and> d' = d)"
proof (intro conjI)
  note rd = read_no_diag_iff [OF assms]
  show "calls_of (resourceGitlabInstanceVariableRead h (recording c) d (s, []))
          = [GetVariableCall (d_Id d)]"
    by (simp add: read_calls)
  show "resourceGitlabInstanceVariableRead h c d s = Returned [] d' s'
       \<longleftrightarrow>
         (\<exists>iv resp. GetVariable c (d_Id d) s = ((Some iv, resp, None), s')
            \<and> d' = \<lparr>d_Id = d_Id d, d_key = d_Id d, d_value = iv_Value iv,
                     d_variable_type = iv_VariableType iv,
                     d_protected = iv_Protected iv, d_masked = iv_Masked iv\<rparr>
            \<and> d_Id d' = d_key d')
       \<or> (\<exists>v r e. GetVariable c (d_Id d) s = ((v, Some r, Some e), s')
            \<and> StatusCode r = 404 \<and> d' = d\<lparr>d_Id := ''''\<rparr>)"
    unfolding rd by auto
  show "calls_of (resourceGitlabInstanceVariableCreate h (recording c) d (s, []))
       \<in> {[CreateVariableCall
             \<lparr>co_Key = Some (d_key d), co_Value = Some (d_value d),
              co_VariableType = stringToVariableType h (d_variable_type d),
              co_Protected = Some (d_protected d), co_Masked = Some (d_masked d)\<rparr>],
           [CreateVariableCall
             \<lparr>co_Key = Some (d_key d), co_Value = Some (d_value d),
              co_VariableType = stringToVariableType h (d_variable_type d),
              co_Protected = Some (d_protected d), co_Masked = Some (d_masked d)\<rparr>,
            GetVariableCall (d_key d)]}"
    by (rule create_calls)
  show "resourceGitlabInstanceVariableCreate h c d s = Returned [] d' s'
       \<longleftrightarrow>
         (\<exists>v0 r0 t.
            CreateVariable c
              \<lparr>co_Key = Some (d_key d), co_Value = Some (d_value d),
               co_VariableType = stringToVariableType h (d_variable_type d),
               co_Protected = Some (d_protected d), co_Masked = Some (d_masked d)\<rparr> s
              = ((v0, r0, None), t)
          \<and> ((\<exists>iv resp. GetVariable c (d_key d) t = ((Some iv, resp, None), s')
                 \<and> d' = \<lparr>d_Id = d_key d, d_key = d_key d, d_value = iv_Value iv,
                          d_variable_type = iv_VariableType iv,
                          d_protected = iv_Protected iv, d_masked = iv_Masked iv\<rparr>
                 \<and> d_Id d' = d_key d')
             \<or> (\<exists>v r e. GetVariable c (d_key d) t = ((v, Some r, Some e), s')
                 \<and> StatusCode r = 404 \<and> d' = d\<lparr>d_Id := ''''\<rparr>)))"
  proof -
    let ?opts = "\<lparr>co_Key = Some (d_key d), co_Value = Some (d_value d),
                  co_VariableType = stringToVariableType h (d_variable_type d),
                  co_Protected = Some (d_protected d), co_Masked = Some (d_masked d)\<rparr>"
    obtain v0 r0 err t where w: "CreateVariable c ?opts s = ((v0, r0, err), t)"
      by (metis prod_cases3 surj_pair)
    show ?thesis
    proof (cases err)
      case (Some e)
      with w assms(2) show ?thesis
        by (simp add: resourceGitlabInstanceVariableCreate_def)
    next
      case None
      with w have "resourceGitlabInstanceVariableCreate h c d s
                     = resourceGitlabInstanceVariableRead h c (d\<lparr>d_Id := d_key d\<rparr>) t"
        by (simp add: resourceGitlabInstanceVariableCreate_def)
      with w None show ?thesis
        by (auto simp: rd)
    qed
  qed
  show "calls_of (resourceGitlabInstanceVariableUpdate h (recording c) d (s, []))
       \<in> {[UpdateVariableCall (d_key d)
             \<lparr>uo_Value = Some (d_value d), uo_Protected = Some (d_protected d),
              uo_VariableType = stringToVariableType h (d_variable_type d),
              uo_Masked = Some (d_masked d)\<rparr>],
           [UpdateVariableCall (d_key d)
             \<lparr>uo_Value = Some (d_value d), uo_Protected = Some (d_protected d),
              uo_VariableType = stringToVariableType h (d_variable_type d),
              uo_Masked = Some (d_masked d)\<rparr>,
            GetVariableCall (d_Id d)]}"
    by (rule update_calls)
  show "resourceGitlabInstanceVariableUpdate h c d s = Returned [] d' s'
       \<longleftrightarrow>
         (\<exists>v0 r0 t.
            UpdateVariable c (d_key d)
              \<lparr>uo_Value = Some (d_value d), uo_Protected = Some (d_protected d),
               uo_VariableType = stringToVariableType h (d_variable_type d),
               uo_Masked = Some (d_masked d)\<rparr> s
              = ((v0, r0, None), t)
          \<and> ((\<exists>iv resp. GetVariable c (d_Id d) t = ((Some iv, resp, None), s')
                 \<and> d' = \<lparr>d_Id = d_Id d, d_key = d_Id d, d_value = iv_Value iv,
                          d_variable_type = iv_VariableType iv,
                          d_protected = iv_Protected iv, d_masked = iv_Masked iv\<rparr>
                 \<and> d_Id d' = d_key d')
             \<or> (\<exists>v r e. GetVariable c (d_Id d) t = ((v, Some r, Some e), s')
                 \<and> StatusCode r = 404 \<and> d' = d\<lparr>d_Id := ''''\<rparr>)))"
  proof -
    let ?opts = "\<lparr>uo_Value = Some (d_value d), uo_Protected = Some (d_protected d),
                  uo_VariableType = stringToVariableType h (d_variable_type d),
                  uo_Masked = Some (d_masked d)\<rparr>"
    obtain v0 r0 err t where w: "UpdateVariable c (d_key d) ?opts s = ((v0, r0, err), t)"
      by (metis prod_cases3 surj_pair)
    show ?thesis
    proof (cases err)
      case (Some e)
      with w assms(2) show ?thesis
        by (simp add: resourceGitlabInstanceVariableUpdate_def)
    next
      case None
      with w have "resourceGitlabInstanceVariableUpdate h c d s
                     = resourceGitlabInstanceVariableRead h c d t"
        by (simp add: resourceGitlabInstanceVariableUpdate_def)
      with w None show ?thesis
        by (auto simp: rd)
    qed
  qed
  show "calls_of (resourceGitlabInstanceVariableDelete h (recording c) d (s, []))
          = [RemoveVariableCall (d_key d)]"
    by (rule delete_calls)
  show "resourceGitlabInstanceVariableDelete h c d s = Returned [] d' s'
       \<longleftrightarrow> (\<exists>resp. RemoveVariable c (d_key d) s = ((resp, None), s')) \<and> d' = d"
  proof -
    obtain resp err t where w: "RemoveVariable c (d_key d) s = ((resp, err), t)"
      by (metis surj_pair)
    with assms(2) show ?thesis
      by (cases err) (auto simp: resourceGitlabInstanceVariableDelete_def)
  qed
qed

theorem identity_invariant_unless_gone_witness:
  "resourceGitlabInstanceVariableCreate exampleHelpers (faithfulRemote exampleErr)
     (exampleData\<lparr>d_Id := ''''\<rparr>) Map.empty
   = Returned [] exampleData
       [''DB_PASS'' \<mapsto>
          \<lparr>rv_Value = ''secret'', rv_VariableType = ''env_var'',
           rv_Protected = True, rv_Masked = True\<rparr>]
 \<and> d_Id exampleData = d_key exampleData
 \<and> resourceGitlabInstanceVariableRead exampleHelpers (faithfulRemote exampleErr)
     exampleData Map.empty
   = Returned [] (exampleData\<lparr>d_Id := ''''\<rparr>) Map.empty"
proof -
  let ?d = "exampleData\<lparr>d_Id := ''''\<rparr>"
  let ?rv = "\<lparr>rv_Value = ''secret'', rv_VariableType = ''env_var'',
              rv_Protected = True, rv_Masked = True\<rparr>"
  let ?s' = "[''DB_PASS'' \<mapsto> ?rv]"
  have k: "keyed_by_request (faithfulRemote exampleErr)"
    by (rule faithfulRemote_keyed)
  have a: "\<forall>d e. augmentVariableClientError exampleHelpers d e \<noteq> []"
    by (simp add: exampleHelpers_def)
  have w: "CreateVariable (faithfulRemote exampleErr)
             \<lparr>co_Key = Some (d_key ?d), co_Value = Some (d_value ?d),
              co_VariableType = stringToVariableType exampleHelpers (d_variable_type ?d),
              co_Protected = Some (d_protected ?d), co_Masked = Some (d_masked ?d)\<rparr>
             Map.empty
           = ((Some (toInstanceVariable ''DB_PASS'' ?rv), Some \<lparr>StatusCode = 201\<rparr>, None),
              ?s')"
    by (simp add: faithfulRemote_def orElse_def exampleData_def exampleHelpers_def Let_def)
  have g: "GetVariable (faithfulRemote exampleErr) (d_key ?d) ?s'
           = ((Some (toInstanceVariable ''DB_PASS'' ?rv), Some \<lparr>StatusCode = 200\<rparr>, None),
              ?s')"
    by (simp add: faithfulRemote_def exampleData_def)
  have e: "exampleData
           = \<lparr>d_Id = d_key ?d, d_key = d_key ?d,
              d_value = iv_Value (toInstanceVariable ''DB_PASS'' ?rv),
              d_variable_type = iv_VariableType (toInstanceVariable ''DB_PASS'' ?rv),
              d_protected = iv_Protected (toInstanceVariable ''DB_PASS'' ?rv),
              d_masked = iv_Masked (toInstanceVariable ''DB_PASS'' ?rv)\<rparr>"
    by (simp add: exampleData_def toInstanceVariable_def)
  have i: "d_Id exampleData = d_key exampleData"
    by (simp add: exampleData_def)
  have n: "GetVariable (faithfulRemote exampleErr) (d_Id exampleData) Map.empty
           = ((None, Some \<lparr>StatusCode = 404\<rparr>, Some (exampleErr 404)), Map.empty)"
    by (simp add: faithfulRemote_def failed_def)
  have c: "StatusCode \<lparr>StatusCode = 404\<rparr> = 404"
    by simp
  note inv = identity_invariant_unless_gone [OF k a]
  from inv [of ?d Map.empty exampleData ?s'] w g e i
  have cr: "resourceGitlabInstanceVariableCreate exampleHelpers (faithfulRemote exampleErr)
              ?d Map.empty = Returned [] exampleData ?s'"
    by blast
  from inv [of exampleData Map.empty ?d Map.empty] n c
  have rd: "resourceGitlabInstanceVariableRead exampleHelpers (faithfulRemote exampleErr)
              exampleData Map.empty = Returned [] ?d Map.empty"
    by blast
  from cr i rd show ?thesis by simp
qed

end
